theory Spec2Isabelle
  imports Complex_Main
begin

section \<open>Data model\<close>

text \<open>
  The billing core of the platform: the webhook handlers of the subscription routes and
  the Subscription model (schema, instance methods, statics). A JavaScript \<open>Date\<close> is
  its number of milliseconds since the epoch; the processor's timestamps are integer
  seconds, turned into a \<open>Date\<close> by \<open>new Date(t * 1000)\<close>. Counters and limits are
  integers, money that is divided (\<open>mrr\<close>, the churn percentage) is rational: the
  rounding of IEEE doubles is not modelled, and every timestamp is taken to be in the
  range of \<open>Date\<close>. A value that may
  be \<open>undefined\<close> or \<open>null\<close> is an option. Identifiers are strings, and an account id
  is taken to be a well-formed ObjectId. The calls to the payment processor are taken to
  succeed and their answers are inputs.
\<close>

type_synonym date = int

text \<open>The \<open>features\<close> object of a plan and of a Subscription document. The two last keys
  exist in the enterprise plan only.\<close>

record feature_bundle =
  maxProjects :: int
  maxCollaborators :: int
  aiTutorMinutes :: int
  codeExecutions :: int
  storageGB :: int
  customDomains :: int
  prioritySupport :: bool
  advancedAnalytics :: bool
  ssoEnabled :: bool
  apiAccess :: bool
  whiteLabeling :: "bool option"
  dedicatedManager :: "bool option"

record usage_counters =
  currentProjects :: int
  aiTutorMinutesUsed :: int
  codeExecutionsUsed :: int
  storageUsedGB :: rat
  lastResetDate :: date

text \<open>A document of the Subscription collection (the fields the handlers, methods and
  statics read or write; \<open>timestamps: true\<close> adds \<open>createdAt\<close> and \<open>updatedAt\<close>).\<close>

record subscription =
  userId :: string
  plan :: string
  status :: string
  billingCycle :: string
  currency :: string
  amount :: "int option"
  mrr :: "rat option"
  stripeCustomerId :: "string option"
  stripeSubscriptionId :: "string option"
  currentPeriodStart :: date
  currentPeriodEnd :: date
  trialEnd :: "date option"
  canceledAt :: "date option"
  cancelAtPeriodEnd :: bool
  features :: feature_bundle
  usage :: usage_counters
  createdAt :: date
  updatedAt :: date

text \<open>The \<open>subscription.*\<close> paths of a User document that the handlers write (the User
  model itself is outside the sources).\<close>

record user_subscription =
  subscription_plan :: string
  subscription_startDate :: "date option"
  subscription_endDate :: "date option"
  subscription_features :: "string list"

text \<open>The two collections. The order of \<open>subscriptions\<close> is the order in which
  \<open>findOne\<close> meets the documents; a document is identified by its position.\<close>

record db =
  subscriptions :: "subscription list"
  users :: "string \<rightharpoonup> user_subscription"

subsection \<open>Payloads of the payment processor\<close>

record stripe_subscription =
  ss_id :: string
  ss_status :: string
  current_period_start :: int
  current_period_end :: int
  cancel_at_period_end :: bool
  canceled_at :: "int option"
  trial_end :: "int option"

record checkout_session =
  metadata_userId :: string
  metadata_plan :: string
  metadata_billingCycle :: string
  metadata_currency :: "string option"
  session_customer :: string
  session_subscription :: string

record invoice =
  invoice_id :: string
  invoice_customer :: string

datatype error = TypeError | ValidationError | CastError

section \<open>The plan catalog\<close>

record prices =
  monthly :: int
  yearly :: int

text \<open>An entry of \<open>PLANS\<close> (the \<open>stripeIds\<close> table is read by the checkout-session
  route only and is left out).\<close>

record plan_def =
  plan_name :: string
  plan_prices :: prices
  plan_features :: feature_bundle

type_synonym catalog = "string \<rightharpoonup> plan_def"

definition PLANS_free :: plan_def where
  "PLANS_free = \<lparr>plan_name = ''Free'', plan_prices = \<lparr>monthly = 0, yearly = 0\<rparr>,
     plan_features = \<lparr>maxProjects = 3, maxCollaborators = 0, aiTutorMinutes = 10,
       codeExecutions = 50, storageGB = 1, customDomains = 0, prioritySupport = False,
       advancedAnalytics = False, ssoEnabled = False, apiAccess = False,
       whiteLabeling = None, dedicatedManager = None\<rparr>\<rparr>"

definition PLANS_starter :: plan_def where
  "PLANS_starter = \<lparr>plan_name = ''Starter'', plan_prices = \<lparr>monthly = 19, yearly = 190\<rparr>,
     plan_features = \<lparr>maxProjects = 10, maxCollaborators = 2, aiTutorMinutes = 100,
       codeExecutions = 500, storageGB = 10, customDomains = 1, prioritySupport = False,
       advancedAnalytics = True, ssoEnabled = False, apiAccess = False,
       whiteLabeling = None, dedicatedManager = None\<rparr>\<rparr>"

definition PLANS_pro :: plan_def where
  "PLANS_pro = \<lparr>plan_name = ''Pro'', plan_prices = \<lparr>monthly = 49, yearly = 490\<rparr>,
     plan_features = \<lparr>maxProjects = 50, maxCollaborators = 10, aiTutorMinutes = 500,
       codeExecutions = 5000, storageGB = 100, customDomains = 5, prioritySupport = True,
       advancedAnalytics = True, ssoEnabled = False, apiAccess = True,
       whiteLabeling = None, dedicatedManager = None\<rparr>\<rparr>"

definition PLANS_enterprise :: plan_def where
  "PLANS_enterprise = \<lparr>plan_name = ''Enterprise'', plan_prices = \<lparr>monthly = 499, yearly = 4990\<rparr>,
     plan_features = \<lparr>maxProjects = 999999, maxCollaborators = 999999, aiTutorMinutes = 999999,
       codeExecutions = 999999, storageGB = 1000, customDomains = 999999, prioritySupport = True,
       advancedAnalytics = True, ssoEnabled = True, apiAccess = True,
       whiteLabeling = Some True, dedicatedManager = Some True\<rparr>\<rparr>"

definition PLANS :: catalog where
  "PLANS = [''free'' \<mapsto> PLANS_free, ''starter'' \<mapsto> PLANS_starter,
            ''pro'' \<mapsto> PLANS_pro, ''enterprise'' \<mapsto> PLANS_enterprise]"

text \<open>\<open>prices[billingCycle]\<close>: the number of an own key; for a key every object
  inherits from \<open>Object.prototype\<close>, a member of the prototype (a function, or the
  prototype itself), which is no number; \<open>undefined\<close> for any other key.\<close>

datatype js_price = JsNumber int | JsInherited | JsUndefined

definition Object_prototype_keys :: "string list" where
  "Object_prototype_keys =
     [''constructor'', ''hasOwnProperty'', ''isPrototypeOf'', ''propertyIsEnumerable'',
      ''toLocaleString'', ''toString'', ''valueOf'', ''__proto__'', ''__defineGetter__'',
      ''__defineSetter__'', ''__lookupGetter__'', ''__lookupSetter__'']"

definition price_of :: "prices \<Rightarrow> string \<Rightarrow> js_price" where
  "price_of p c =
     (if c = ''monthly'' then JsNumber (monthly p)
      else if c = ''yearly'' then JsNumber (yearly p)
      else if c \<in> set Object_prototype_keys then JsInherited
      else JsUndefined)"

text \<open>\<open>Object.keys\<close> of a \<open>features\<close> object, in the order the catalog writes them.\<close>

definition Object_keys :: "feature_bundle \<Rightarrow> string list" where
  "Object_keys f =
     [''maxProjects'', ''maxCollaborators'', ''aiTutorMinutes'', ''codeExecutions'',
      ''storageGB'', ''customDomains'', ''prioritySupport'', ''advancedAnalytics'',
      ''ssoEnabled'', ''apiAccess'']
     @ (case whiteLabeling f of None \<Rightarrow> [] | Some _ \<Rightarrow> [''whiteLabeling''])
     @ (case dedicatedManager f of None \<Rightarrow> [] | Some _ \<Rightarrow> [''dedicatedManager''])"

section \<open>The store: findOne and save\<close>

text \<open>\<open>Model.findOne(filter)\<close>: the position of the first document that matches.\<close>

fun findOne :: "('a \<Rightarrow> bool) \<Rightarrow> 'a list \<Rightarrow> nat option" where
  "findOne P [] = None"
| "findOne P (x # xs) = (if P x then Some 0 else map_option Suc (findOne P xs))"

text \<open>The validators the schema declares on the modelled paths: the four \<open>enum\<close>s, and
  \<open>required\<close> with \<open>min: 0\<close> on \<open>amount\<close>. \<open>save()\<close> runs them on every path of a
  loaded document, modified or not.\<close>

definition plan_enum :: "string list" where
  "plan_enum = [''free'', ''starter'', ''pro'', ''enterprise'']"

definition status_enum :: "string list" where
  "status_enum = [''active'', ''canceled'', ''past_due'', ''trialing'', ''expired'', ''paused'']"

definition billingCycle_enum :: "string list" where
  "billingCycle_enum = [''monthly'', ''yearly'']"

definition currency_enum :: "string list" where
  "currency_enum = [''USD'', ''EUR'', ''GBP'', ''BRL'', ''MXN'']"

definition validate :: "subscription \<Rightarrow> bool" where
  "validate d \<longleftrightarrow>
     plan d \<in> set plan_enum \<and> status d \<in> set status_enum \<and>
     billingCycle d \<in> set billingCycle_enum \<and> currency d \<in> set currency_enum \<and>
     (case amount d of None \<Rightarrow> False | Some a \<Rightarrow> 0 \<le> a)"

text \<open>The document a query hands to the handler is the stored one with the schema's
  defaults on the paths it lacks. Among the modelled paths only
  \<open>features.whiteLabeling\<close> and \<open>features.dedicatedManager\<close> can be missing (a bundle
  of the catalog written by a checkout need not have them); their default is
  \<open>false\<close>.\<close>

definition features_defaults :: "feature_bundle \<Rightarrow> feature_bundle" where
  "features_defaults f =
     f\<lparr>whiteLabeling := Some (case whiteLabeling f of None \<Rightarrow> False | Some b \<Rightarrow> b),
       dedicatedManager := Some (case dedicatedManager f of None \<Rightarrow> False | Some b \<Rightarrow> b)\<rparr>"

definition hydrate :: "subscription \<Rightarrow> subscription" where
  "hydrate d = d\<lparr>features := features_defaults (features d)\<rparr>"

text \<open>\<open>document.save()\<close> of the document \<open>d\<close> that was loaded from position \<open>i\<close> and
  then assigned to: validation runs first and rejects with a ValidationError, writing
  nothing; otherwise the modified paths and the defaults applied on loading are
  written, and the timestamps plugin stamps \<open>updatedAt\<close> when a path was modified
  (\<open>written\<close>, where \<open>old\<close> is the document as loaded).\<close>

definition written :: "date \<Rightarrow> subscription \<Rightarrow> subscription \<Rightarrow> subscription" where
  "written now old d = (if d = old then d else d\<lparr>updatedAt := now\<rparr>)"

definition save :: "date \<Rightarrow> subscription list \<Rightarrow> nat \<Rightarrow> subscription \<Rightarrow> error + subscription list" where
  "save now docs i d =
     (if \<not> validate d then Inl ValidationError
      else Inr (docs[i := written now (hydrate (docs ! i)) d]))"

text \<open>JavaScript truthiness of a number that may be \<open>null\<close>.\<close>

fun truthy :: "int option \<Rightarrow> bool" where
  "truthy None = False"
| "truthy (Some t) = (t \<noteq> 0)"

section \<open>Webhook handlers\<close>

text \<open>Each handler takes the clock reading \<open>now\<close> (every \<open>new Date()\<close> of one
  delivery is that one instant) and the two collections, and returns the collections
  after it, or the exception it throws; every exception below is thrown before the
  first write, so the collections are then as they were.\<close>

text \<open>\<open>User.findByIdAndUpdate(id, update)\<close>: nothing happens when no user has the id.\<close>

definition findByIdAndUpdate ::
  "string \<Rightarrow> (user_subscription \<Rightarrow> user_subscription) \<Rightarrow> (string \<rightharpoonup> user_subscription)
    \<Rightarrow> (string \<rightharpoonup> user_subscription)" where
  "findByIdAndUpdate uid f us = (case us uid of None \<Rightarrow> us | Some u \<Rightarrow> us(uid \<mapsto> f u))"

text \<open>\<open>session.metadata.currency || 'USD'\<close>.\<close>

fun currency_or_USD :: "string option \<Rightarrow> string" where
  "currency_or_USD None = ''USD''"
| "currency_or_USD (Some c) = (if c = [] then ''USD'' else c)"

text \<open>\<open>Model.findOneAndUpdate(filter, update, { upsert: true, new: true })\<close>: no
  validators run; the update is applied to the first document that matches, or to a new
  document (the schema's defaults, \<open>fresh\<close>), which is inserted last.\<close>

definition findOneAndUpdate_upsert ::
  "('a \<Rightarrow> bool) \<Rightarrow> ('a \<Rightarrow> 'a) \<Rightarrow> 'a \<Rightarrow> 'a list \<Rightarrow> 'a list" where
  "findOneAndUpdate_upsert P upd fresh docs =
     (case findOne P docs of
        None \<Rightarrow> docs @ [upd fresh]
      | Some i \<Rightarrow> docs[i := upd (docs ! i)])"

text \<open>The document an upsert for \<open>{ userId }\<close> starts from: the filter's value and the
  schema's defaults.\<close>

definition newSubscription :: "string \<Rightarrow> date \<Rightarrow> subscription" where
  "newSubscription uid now =
     \<lparr>userId = uid, plan = ''free'', status = ''active'', billingCycle = ''monthly'',
      currency = ''USD'', amount = None, mrr = Some 0,
      stripeCustomerId = None, stripeSubscriptionId = None,
      currentPeriodStart = now, currentPeriodEnd = now, trialEnd = None,
      canceledAt = None, cancelAtPeriodEnd = False,
      features = \<lparr>maxProjects = 3, maxCollaborators = 0, aiTutorMinutes = 10,
        codeExecutions = 50, storageGB = 1, customDomains = 0, prioritySupport = False,
        advancedAnalytics = False, ssoEnabled = False, apiAccess = False,
        whiteLabeling = Some False, dedicatedManager = Some False\<rparr>,
      usage = \<lparr>currentProjects = 0, aiTutorMinutesUsed = 0, codeExecutionsUsed = 0,
                storageUsedGB = 0, lastResetDate = now\<rparr>,
      createdAt = now, updatedAt = now\<rparr>"

text \<open>\<open>handleCheckoutComplete(session)\<close>. \<open>ss\<close> is the answer of
  \<open>stripe.subscriptions.retrieve(session.subscription)\<close>, \<open>p\<close> is \<open>PLANS[plan]\<close>.
  \<open>checkoutUpdate\<close> is the update document of the \<open>findOneAndUpdate\<close> call, with
  the \<open>updatedAt\<close> that \<open>timestamps: true\<close> adds to it (an \<open>undefined\<close> amount is
  written as a missing value); \<open>checkoutUserUpdate\<close> is that of
  \<open>User.findByIdAndUpdate\<close>; \<open>checkoutWrites\<close> is the two writes. \<open>PLANS[plan].prices\<close>
  throws a TypeError for a plan the catalog does not have, and \<open>findOneAndUpdate\<close> a
  CastError for an amount that is no number; both before anything is written.\<close>

definition checkoutUpdate ::
  "plan_def \<Rightarrow> int option \<Rightarrow> date \<Rightarrow> stripe_subscription \<Rightarrow> checkout_session
    \<Rightarrow> subscription \<Rightarrow> subscription" where
  "checkoutUpdate p amount' now ss session d =
     (let billingCycle' = metadata_billingCycle session;
          mrr' = (if billingCycle' = ''yearly'' then map_option (\<lambda>a. of_int a / 12) amount'
                  else map_option of_int amount')
      in d\<lparr>plan := metadata_plan session,
           status := ''active'',
           billingCycle := billingCycle',
           currency := currency_or_USD (metadata_currency session),
           amount := amount',
           mrr := mrr',
           stripeCustomerId := Some (session_customer session),
           stripeSubscriptionId := Some (session_subscription session),
           currentPeriodStart := current_period_start ss * 1000,
           currentPeriodEnd := current_period_end ss * 1000,
           trialEnd := (if truthy (trial_end ss) then map_option (\<lambda>t. t * 1000) (trial_end ss)
                        else None),
           features := plan_features p,
           updatedAt := now\<rparr>)"

definition checkoutUserUpdate ::
  "plan_def \<Rightarrow> date \<Rightarrow> stripe_subscription \<Rightarrow> checkout_session \<Rightarrow> user_subscription \<Rightarrow> user_subscription" where
  "checkoutUserUpdate p now ss session u =
     u\<lparr>subscription_plan := metadata_plan session,
       subscription_startDate := Some now,
       subscription_endDate := Some (current_period_end ss * 1000),
       subscription_features := Object_keys (plan_features p)\<rparr>"

definition checkoutWrites ::
  "plan_def \<Rightarrow> int option \<Rightarrow> date \<Rightarrow> stripe_subscription \<Rightarrow> checkout_session \<Rightarrow> db \<Rightarrow> db" where
  "checkoutWrites p amount' now ss session s =
     s\<lparr>subscriptions :=
         findOneAndUpdate_upsert (\<lambda>d. userId d = metadata_userId session)
           (checkoutUpdate p amount' now ss session)
           (newSubscription (metadata_userId session) now)
           (subscriptions s),
       users := findByIdAndUpdate (metadata_userId session)
         (checkoutUserUpdate p now ss session) (users s)\<rparr>"

definition handleCheckoutComplete ::
  "catalog \<Rightarrow> date \<Rightarrow> stripe_subscription \<Rightarrow> checkout_session \<Rightarrow> db \<Rightarrow> error + db" where
  "handleCheckoutComplete plans now ss session s =
     (case plans (metadata_plan session) of
        None \<Rightarrow> Inl TypeError
      | Some p \<Rightarrow>
          (case price_of (plan_prices p) (metadata_billingCycle session) of
             JsNumber a \<Rightarrow> Inr (checkoutWrites p (Some a) now ss session s)
           | JsInherited \<Rightarrow> Inl CastError
           | JsUndefined \<Rightarrow> Inr (checkoutWrites p None now ss session s)))"

text \<open>\<open>handleSubscriptionUpdate(stripeSubscription)\<close>: \<open>assignUpdate\<close> is its block of
  assignments to the loaded document.\<close>

definition assignUpdate :: "stripe_subscription \<Rightarrow> subscription \<Rightarrow> subscription" where
  "assignUpdate ss d0 =
     (let d1 = d0\<lparr>status := ss_status ss,
                  currentPeriodStart := current_period_start ss * 1000,
                  currentPeriodEnd := current_period_end ss * 1000,
                  cancelAtPeriodEnd := cancel_at_period_end ss\<rparr>
      in if truthy (canceled_at ss)
         then d1\<lparr>canceledAt := map_option (\<lambda>t. t * 1000) (canceled_at ss)\<rparr>
         else d1)"

definition handleSubscriptionUpdate :: "date \<Rightarrow> stripe_subscription \<Rightarrow> db \<Rightarrow> error + db" where
  "handleSubscriptionUpdate now ss s =
     (case findOne (\<lambda>d. stripeSubscriptionId d = Some (ss_id ss)) (subscriptions s) of
        None \<Rightarrow> Inr s
      | Some i \<Rightarrow>
          (case save now (subscriptions s) i (assignUpdate ss (hydrate (subscriptions s ! i))) of
             Inl e \<Rightarrow> Inl e
           | Inr docs \<Rightarrow> Inr (s\<lparr>subscriptions := docs\<rparr>)))"

text \<open>\<open>handleSubscriptionDeleted(stripeSubscription)\<close>.\<close>

definition handleSubscriptionDeleted :: "date \<Rightarrow> stripe_subscription \<Rightarrow> db \<Rightarrow> error + db" where
  "handleSubscriptionDeleted now ss s =
     (case findOne (\<lambda>d. stripeSubscriptionId d = Some (ss_id ss)) (subscriptions s) of
        None \<Rightarrow> Inr s
      | Some i \<Rightarrow>
          let d = (hydrate (subscriptions s ! i))\<lparr>status := ''canceled'', canceledAt := Some now\<rparr>
          in (case save now (subscriptions s) i d of
                Inl e \<Rightarrow> Inl e
              | Inr docs \<Rightarrow>
                  Inr (s\<lparr>subscriptions := docs,
                         users := findByIdAndUpdate (userId d)
                           (\<lambda>u. u\<lparr>subscription_plan := ''free'',
                                   subscription_endDate := Some now\<rparr>)
                           (users s)\<rparr>)))"

text \<open>\<open>handleInvoicePaid(invoice)\<close> only logs.\<close>

definition handleInvoicePaid :: "invoice \<Rightarrow> db \<Rightarrow> error + db" where
  "handleInvoicePaid invc s = Inr s"

text \<open>\<open>handlePaymentFailed(invoice)\<close>.\<close>

definition handlePaymentFailed :: "date \<Rightarrow> invoice \<Rightarrow> db \<Rightarrow> error + db" where
  "handlePaymentFailed now invc s =
     (case findOne (\<lambda>d. stripeCustomerId d = Some (invoice_customer invc)) (subscriptions s) of
        None \<Rightarrow> Inr s
      | Some i \<Rightarrow>
          let d = (hydrate (subscriptions s ! i))\<lparr>status := ''past_due''\<rparr>
          in (case save now (subscriptions s) i d of
                Inl e \<Rightarrow> Inl e
              | Inr docs \<Rightarrow> Inr (s\<lparr>subscriptions := docs\<rparr>)))"

text \<open>The \<open>switch (event.type)\<close> of the webhook route, after the signature check. A
  completed checkout carries the session and the subscription the processor returns
  for it; an event of any other type changes nothing.\<close>

datatype event =
    CheckoutSessionCompleted checkout_session stripe_subscription
  | CustomerSubscriptionUpdated stripe_subscription
  | CustomerSubscriptionDeleted stripe_subscription
  | InvoicePaid invoice
  | InvoicePaymentFailed invoice
  | OtherEvent string

fun webhook :: "catalog \<Rightarrow> date \<Rightarrow> event \<Rightarrow> db \<Rightarrow> error + db" where
  "webhook plans now (CheckoutSessionCompleted session ss) s = handleCheckoutComplete plans now ss session s"
| "webhook plans now (CustomerSubscriptionUpdated ss) s = handleSubscriptionUpdate now ss s"
| "webhook plans now (CustomerSubscriptionDeleted ss) s = handleSubscriptionDeleted now ss s"
| "webhook plans now (InvoicePaid invc) s = handleInvoicePaid invc s"
| "webhook plans now (InvoicePaymentFailed invc) s = handlePaymentFailed now invc s"
| "webhook plans now (OtherEvent ty) s = Inr s"

text \<open>The collections after a delivery: the route answers 500 on an exception, and
  nothing was written.\<close>

definition deliver :: "catalog \<Rightarrow> date \<Rightarrow> event \<Rightarrow> db \<Rightarrow> db" where
  "deliver plans now ev s = (case webhook plans now ev s of Inl e \<Rightarrow> s | Inr s' \<Rightarrow> s')"

text \<open>A sequence of deliveries, each with its own clock reading and under the catalog
  the process holds at that time.\<close>

fun deliver_all :: "db \<Rightarrow> (catalog \<times> date \<times> event) list \<Rightarrow> db" where
  "deliver_all s [] = s"
| "deliver_all s ((plans, now, ev) # evs) = deliver_all (deliver plans now ev s) evs"

section \<open>Methods and statics of the Subscription model\<close>

text \<open>\<open>x || 0\<close> on a number.\<close>

definition or0 :: "'a::zero \<Rightarrow> 'a" where
  "or0 x = (if x = 0 then 0 else x)"

text \<open>\<open>resetUsage()\<close> on the document loaded from position \<open>i\<close>.\<close>

definition resetUsage :: "date \<Rightarrow> nat \<Rightarrow> subscription list \<Rightarrow> error + subscription list" where
  "resetUsage now i docs =
     (let this = hydrate (docs ! i);
          this' = this\<lparr>usage :=
                    \<lparr>currentProjects = or0 (currentProjects (usage this)),
                     aiTutorMinutesUsed = 0,
                     codeExecutionsUsed = 0,
                     storageUsedGB = or0 (storageUsedGB (usage this)),
                     lastResetDate = now\<rparr>\<rparr>
      in save now docs i this')"

text \<open>\<open>canUseFeature(feature)\<close>.\<close>

definition canUseFeature :: "subscription \<Rightarrow> string \<Rightarrow> bool" where
  "canUseFeature this feature =
     (if feature = ''createProject'' then currentProjects (usage this) < maxProjects (features this)
      else if feature = ''aiTutor'' then aiTutorMinutesUsed (usage this) < aiTutorMinutes (features this)
      else if feature = ''codeExecution'' then codeExecutionsUsed (usage this) < codeExecutions (features this)
      else if feature = ''prioritySupport'' then prioritySupport (features this)
      else if feature = ''advancedAnalytics'' then advancedAnalytics (features this)
      else if feature = ''sso'' then ssoEnabled (features this)
      else if feature = ''api'' then apiAccess (features this)
      else True)"

text \<open>Modelled from the spec: \<open>recordUsage\<close> is not in the sources. The spec's words:
  "\<open>recordUsage(accountId, capability, delta)\<close> increments the relevant counter; must be
  an atomic increment". The capabilities are those \<open>canUseFeature\<close> compares with a
  counter; the increment is the store's own (no validation, no other path written).\<close>

definition recordUsage :: "string \<Rightarrow> int \<Rightarrow> subscription \<Rightarrow> subscription" where
  "recordUsage capability delta this =
     (if capability = ''createProject''
        then this\<lparr>usage := (usage this)\<lparr>currentProjects := currentProjects (usage this) + delta\<rparr>\<rparr>
      else if capability = ''aiTutor''
        then this\<lparr>usage := (usage this)\<lparr>aiTutorMinutesUsed := aiTutorMinutesUsed (usage this) + delta\<rparr>\<rparr>
      else if capability = ''codeExecution''
        then this\<lparr>usage := (usage this)\<lparr>codeExecutionsUsed := codeExecutionsUsed (usage this) + delta\<rparr>\<rparr>
      else this)"

text \<open>\<open>getMRR()\<close>: the \<open>$match\<close> and \<open>$group\<close> stages give no group at all when
  nothing matches; \<open>$sum\<close> counts a missing \<open>mrr\<close> as 0.\<close>

record mrr_data =
  totalMRR :: rat
  subscriberCount :: nat

definition aggregate_mrr :: "subscription list \<Rightarrow> mrr_data list" where
  "aggregate_mrr docs =
     (let matched = filter (\<lambda>d. status d = ''active'' \<and> plan d \<noteq> ''free'') docs
      in if matched = [] then []
         else [\<lparr>totalMRR = sum_list (map (\<lambda>d. case mrr d of None \<Rightarrow> 0 | Some m \<Rightarrow> m) matched),
                subscriberCount = length matched\<rparr>])"

definition getMRR :: "subscription list \<Rightarrow> mrr_data" where
  "getMRR docs =
     (case aggregate_mrr docs of
        [] \<Rightarrow> \<lparr>totalMRR = 0, subscriberCount = 0\<rparr>
      | r # _ \<Rightarrow> r)"

definition getARR :: "subscription list \<Rightarrow> rat" where
  "getARR docs = totalMRR (getMRR docs) * 12"

text \<open>\<open>getChurnRate(months)\<close>. \<open>setMonth\<close> stands for the calendar arithmetic of
  \<open>startDate.setMonth(startDate.getMonth() - months)\<close>: it maps the clock reading and
  the window to the start date, and the function is defined for any such map.\<close>

definition countDocuments :: "('a \<Rightarrow> bool) \<Rightarrow> 'a list \<Rightarrow> nat" where
  "countDocuments P docs = length (filter P docs)"

definition getChurnRate :: "(date \<Rightarrow> int \<Rightarrow> date) \<Rightarrow> date \<Rightarrow> int \<Rightarrow> subscription list \<Rightarrow> rat" where
  "getChurnRate setMonth now months docs =
     (let startDate = setMonth now months;
          totalAtStart = countDocuments (\<lambda>d. createdAt d < startDate \<and> status d = ''active'') docs;
          churned = countDocuments
            (\<lambda>d. (case canceledAt d of None \<Rightarrow> False | Some c \<Rightarrow> startDate \<le> c) \<and>
                  (status d = ''canceled'' \<or> status d = ''expired'')) docs
      in if totalAtStart > 0 then (of_nat churned / of_nat totalAtStart) * 100 else 0)"

section \<open>Example data\<close>

text \<open>A starter subscription with some usage, as stored after its first save (the two
  flags the starter bundle lacks are stored with their default).\<close>

definition example_subscription :: subscription where
  "example_subscription =
     \<lparr>userId = ''u1'', plan = ''starter'', status = ''active'', billingCycle = ''monthly'',
      currency = ''USD'', amount = Some 19, mrr = Some 19,
      stripeCustomerId = Some ''cus_1'', stripeSubscriptionId = Some ''sub_1'',
      currentPeriodStart = 1000000, currentPeriodEnd = 2000000, trialEnd = None,
      canceledAt = None, cancelAtPeriodEnd = False,
      features = features_defaults (plan_features PLANS_starter),
      usage = \<lparr>currentProjects = 2, aiTutorMinutesUsed = 30, codeExecutionsUsed = 499,
                storageUsedGB = 4, lastResetDate = 1000000\<rparr>,
      createdAt = 1000000, updatedAt = 1000000\<rparr>"

definition example_db :: db where
  "example_db = \<lparr>subscriptions = [example_subscription],
      users = [''u1'' \<mapsto> \<lparr>subscription_plan = ''starter'', subscription_startDate = Some 1000000,
                 subscription_endDate = Some 2000000,
                 subscription_features = Object_keys (plan_features PLANS_starter)\<rparr>]\<rparr>"

text \<open>The same account on the enterprise plan, already canceled at 1500000.\<close>

definition example_enterprise_db :: db where
  "example_enterprise_db =
     \<lparr>subscriptions = [example_subscription\<lparr>plan := ''enterprise'', status := ''canceled'',
          canceledAt := Some 1500000, features := plan_features PLANS_enterprise\<rparr>],
      users = [''u1'' \<mapsto> \<lparr>subscription_plan = ''enterprise'', subscription_startDate = Some 1000000,
                 subscription_endDate = Some 2000000,
                 subscription_features = Object_keys (plan_features PLANS_enterprise)\<rparr>]\<rparr>"

text \<open>A subscription payload for \<open>sub_1\<close> whose period ends at second 1000, before the
  stored period end of the example document (2000000 ms).\<close>

definition example_update :: stripe_subscription where
  "example_update = \<lparr>ss_id = ''sub_1'', ss_status = ''active'', current_period_start = 0,
      current_period_end = 1000, cancel_at_period_end = False, canceled_at = None,
      trial_end = None\<rparr>"

definition example_invoice :: invoice where
  "example_invoice = \<lparr>invoice_id = ''in_1'', invoice_customer = ''cus_1''\<rparr>"

definition example_session :: checkout_session where
  "example_session = \<lparr>metadata_userId = ''u2'', metadata_plan = ''pro'',
      metadata_billingCycle = ''monthly'', metadata_currency = Some ''USD'',
      session_customer = ''cus_2'', session_subscription = ''sub_2''\<rparr>"

text \<open>The catalog after its \<open>pro\<close> bundle was replaced by the free one.\<close>

definition example_changed_PLANS :: catalog where
  "example_changed_PLANS = PLANS(''pro'' \<mapsto> PLANS_pro\<lparr>plan_features := plan_features PLANS_free\<rparr>)"

text \<open>The completed checkout of account \<open>u2\<close> on \<open>pro\<close>, the store before it, and two
  later events for the subscription it creates, delivered under the changed catalog.\<close>

definition example_checkout :: event where
  "example_checkout = CheckoutSessionCompleted example_session (example_update\<lparr>ss_id := ''sub_2''\<rparr>)"

definition example_empty_db :: db where
  "example_empty_db = \<lparr>subscriptions = [], users = Map.empty\<rparr>"

definition example_later_events :: "(catalog \<times> date \<times> event) list" where
  "example_later_events =
     [(example_changed_PLANS, 6000000, CustomerSubscriptionUpdated (example_update\<lparr>ss_id := ''sub_2''\<rparr>)),
      (example_changed_PLANS, 7000000, InvoicePaymentFailed (example_invoice\<lparr>invoice_customer := ''cus_2''\<rparr>))]"

section \<open>Predicates of the statements and proofs\<close>

text \<open>The account a completed checkout is for; no other event names one.\<close>

fun checkout_user :: "event \<Rightarrow> string option" where
  "checkout_user (CheckoutSessionCompleted session ss) = Some (metadata_userId session)"
| "checkout_user ev = None"

text \<open>\<open>kept u docs docs'\<close>: every document of \<open>docs\<close> is still at its position in
  \<open>docs'\<close> with the same owner, and those of account \<open>u\<close> with the same \<open>features\<close>,
  as stored or with the schema's defaults on the missing flags.\<close>

definition kept :: "string \<Rightarrow> subscription list \<Rightarrow> subscription list \<Rightarrow> bool" where
  "kept u docs docs' \<longleftrightarrow>
     length docs \<le> length docs' \<and>
     (\<forall>j < length docs. userId (docs' ! j) = userId (docs ! j) \<and>
        (userId (docs ! j) = u \<longrightarrow>
           features (docs' ! j) = features (docs ! j) \<or>
           features (docs' ! j) = features_defaults (features (docs ! j))))"

section \<open>Facts about the store\<close>

lemmas enum_defs = plan_enum_def status_enum_def billingCycle_enum_def currency_enum_def

lemma findOne_Some_iff:
  "findOne P xs = Some i \<longleftrightarrow> i < length xs \<and> P (xs ! i) \<and> (\<forall>j < i. \<not> P (xs ! j))"
proof (induction xs arbitrary: i)
  case Nil
  then show ?case by simp
next
  case (Cons x xs)
  show ?case
  proof (cases "P x")
    case True
    then show ?thesis by (cases i) auto
  next
    case False
    show ?thesis
    proof (cases i)
      case 0
      with False show ?thesis by simp
    next
      case (Suc k)
      have "(\<forall>j < Suc k. \<not> P ((x # xs) ! j)) \<longleftrightarrow> (\<forall>j < k. \<not> P (xs ! j))"
        using False by (auto simp: less_Suc_eq_0_disj)
      with False Suc Cons.IH [of k] show ?thesis by auto
    qed
  qed
qed

lemma findOne_None_iff: "findOne P xs = None \<longleftrightarrow> (\<forall>x \<in> set xs. \<not> P x)"
  by (induction xs) auto

lemma findOne_list_update_same:
  assumes "findOne P xs = Some i" and "P y"
  shows "findOne P (xs[i := y]) = Some i"
  using assms by (auto simp: findOne_Some_iff)

lemma upsert_position:
  assumes upd: "\<And>d. P (upd d) = P d" and fresh: "P fresh"
  shows "findOne P (findOneAndUpdate_upsert P upd fresh docs)
           = Some (case findOne P docs of None \<Rightarrow> length docs | Some i \<Rightarrow> i)"
proof (cases "findOne P docs")
  case None
  then have "\<forall>j < length docs. \<not> P (docs ! j)"
    by (simp add: findOne_None_iff)
  with None upd fresh show ?thesis
    by (simp add: findOneAndUpdate_upsert_def findOne_Some_iff nth_append)
next
  case (Some i)
  then have "P (docs ! i)"
    by (simp add: findOne_Some_iff)
  with Some upd show ?thesis
    by (simp add: findOneAndUpdate_upsert_def findOne_list_update_same)
qed

lemma upsert_nth:
  "\<exists>d. findOneAndUpdate_upsert P upd fresh docs
          ! (case findOne P docs of None \<Rightarrow> length docs | Some i \<Rightarrow> i) = upd d"
proof (cases "findOne P docs")
  case None
  then show ?thesis
    by (auto simp: findOneAndUpdate_upsert_def)
next
  case (Some i)
  then have "i < length docs"
    by (simp add: findOne_Some_iff)
  with Some show ?thesis
    by (auto simp: findOneAndUpdate_upsert_def)
qed

lemma validate_example: "validate example_subscription"
  by (simp add: validate_def example_subscription_def enum_defs)

lemma validate_updatedAt [simp]: "validate (d\<lparr>updatedAt := t\<rparr>) = validate d"
  by (simp add: validate_def)

lemma validate_canceledAt [simp]: "validate (d\<lparr>canceledAt := c\<rparr>) = validate d"
  by (simp add: validate_def)

lemma validate_written [simp]: "validate (written now old d) = validate d"
  by (simp add: written_def)

lemma validate_status:
  "validate d \<Longrightarrow> st \<in> set status_enum \<Longrightarrow> validate (d\<lparr>status := st\<rparr>)"
  by (simp add: validate_def)

lemma written_same [simp]: "written now d d = d"
  by (simp add: written_def)

lemma written_fields [simp]:
  "userId (written now old d) = userId d"
  "status (written now old d) = status d"
  "stripeSubscriptionId (written now old d) = stripeSubscriptionId d"
  "currentPeriodEnd (written now old d) = currentPeriodEnd d"
  "canceledAt (written now old d) = canceledAt d"
  "features (written now old d) = features d"
  by (simp_all add: written_def)

lemma features_defaults_idem [simp]:
  "features_defaults (features_defaults f) = features_defaults f"
  by (simp add: features_defaults_def)

lemma hydrate_fields [simp]:
  "userId (hydrate d) = userId d"
  "status (hydrate d) = status d"
  "stripeSubscriptionId (hydrate d) = stripeSubscriptionId d"
  "stripeCustomerId (hydrate d) = stripeCustomerId d"
  "currentPeriodEnd (hydrate d) = currentPeriodEnd d"
  "canceledAt (hydrate d) = canceledAt d"
  "usage (hydrate d) = usage d"
  "features (hydrate d) = features_defaults (features d)"
  by (simp_all add: hydrate_def)

lemma hydrate_idem [simp]: "hydrate (hydrate d) = hydrate d"
  by (simp add: hydrate_def)

lemma hydrate_updatedAt: "hydrate (d\<lparr>updatedAt := t\<rparr>) = (hydrate d)\<lparr>updatedAt := t\<rparr>"
  by (simp add: hydrate_def)

lemma validate_hydrate [simp]: "validate (hydrate d) = validate d"
  by (simp add: validate_def hydrate_def)

lemma hydrate_example: "hydrate example_subscription = example_subscription"
  by (simp add: hydrate_def example_subscription_def)

section \<open>Facts about handleSubscriptionUpdate\<close>

lemma assignUpdate_fields [simp]:
  "userId (assignUpdate ss d) = userId d"
  "stripeSubscriptionId (assignUpdate ss d) = stripeSubscriptionId d"
  "currentPeriodEnd (assignUpdate ss d) = current_period_end ss * 1000"
  "features (assignUpdate ss d) = features d"
  by (simp_all add: assignUpdate_def Let_def)

lemma assignUpdate_updatedAt:
  "assignUpdate ss (d\<lparr>updatedAt := t\<rparr>) = (assignUpdate ss d)\<lparr>updatedAt := t\<rparr>"
  by (simp add: assignUpdate_def Let_def)

lemma assignUpdate_idem: "assignUpdate ss (assignUpdate ss d) = assignUpdate ss d"
  by (simp add: assignUpdate_def Let_def)

lemma assignUpdate_written:
  "assignUpdate ss (written now old (assignUpdate ss d)) = written now old (assignUpdate ss d)"
proof -
  have "written now old (assignUpdate ss d) = assignUpdate ss d \<or>
        written now old (assignUpdate ss d) = (assignUpdate ss d)\<lparr>updatedAt := now\<rparr>"
    by (simp add: written_def)
  then show ?thesis
    by (metis assignUpdate_idem assignUpdate_updatedAt)
qed

lemma hydrate_assignUpdate: "hydrate (assignUpdate ss d) = assignUpdate ss (hydrate d)"
  by (simp add: hydrate_def assignUpdate_def Let_def)

lemma hydrate_written_assignUpdate:
  "hydrate (written now old (assignUpdate ss (hydrate d))) = written now old (assignUpdate ss (hydrate d))"
proof -
  have "written now old (assignUpdate ss (hydrate d)) = assignUpdate ss (hydrate d) \<or>
        written now old (assignUpdate ss (hydrate d)) = (assignUpdate ss (hydrate d))\<lparr>updatedAt := now\<rparr>"
    by (simp add: written_def)
  moreover have "hydrate (assignUpdate ss (hydrate d)) = assignUpdate ss (hydrate d)"
    by (simp add: hydrate_assignUpdate)
  ultimately show ?thesis
    by (metis hydrate_updatedAt)
qed

lemma validate_assignUpdate:
  "validate (assignUpdate ss d) \<longleftrightarrow>
     ss_status ss \<in> set status_enum \<and> plan d \<in> set plan_enum \<and>
     billingCycle d \<in> set billingCycle_enum \<and> currency d \<in> set currency_enum \<and>
     (case amount d of None \<Rightarrow> False | Some a \<Rightarrow> 0 \<le> a)"
  by (auto simp add: validate_def assignUpdate_def Let_def)

lemma handleSubscriptionUpdate_None:
  "findOne (\<lambda>d. stripeSubscriptionId d = Some (ss_id ss)) (subscriptions s) = None
    \<Longrightarrow> handleSubscriptionUpdate now ss s = Inr s"
  by (simp add: handleSubscriptionUpdate_def)

lemma handleSubscriptionUpdate_Some:
  "findOne (\<lambda>d. stripeSubscriptionId d = Some (ss_id ss)) (subscriptions s) = Some i
    \<Longrightarrow> handleSubscriptionUpdate now ss s =
        (if validate (assignUpdate ss (hydrate (subscriptions s ! i)))
         then Inr (s\<lparr>subscriptions := (subscriptions s)
                 [i := written now (hydrate (subscriptions s ! i))
                         (assignUpdate ss (hydrate (subscriptions s ! i)))]\<rparr>)
         else Inl ValidationError)"
  by (simp add: handleSubscriptionUpdate_def save_def)

lemma handleSubscriptionUpdate_replay:
  "(case handleSubscriptionUpdate t1 ss s of
      Inl e \<Rightarrow> handleSubscriptionUpdate t2 ss s = Inl e
    | Inr s' \<Rightarrow> handleSubscriptionUpdate t2 ss s' = Inr s')"
proof (cases "findOne (\<lambda>d. stripeSubscriptionId d = Some (ss_id ss)) (subscriptions s)")
  case None
  then show ?thesis by (simp add: handleSubscriptionUpdate_None)
next
  case (Some i)
  let ?P = "\<lambda>d. stripeSubscriptionId d = Some (ss_id ss)"
  let ?old = "hydrate (subscriptions s ! i)"
  let ?new = "written t1 ?old (assignUpdate ss ?old)"
  let ?s' = "s\<lparr>subscriptions := (subscriptions s)[i := ?new]\<rparr>"
  have i: "i < length (subscriptions s)" and P: "?P ?old"
    using Some by (simp_all add: findOne_Some_iff)
  show ?thesis
  proof (cases "validate (assignUpdate ss ?old)")
    case False
    then show ?thesis by (simp add: handleSubscriptionUpdate_Some [OF Some])
  next
    case True
    have f: "findOne ?P (subscriptions ?s') = Some i"
      using Some P by (simp add: findOne_list_update_same)
    have n: "subscriptions ?s' ! i = ?new"
      using i by simp
    have h: "hydrate ?new = ?new"
      by (rule hydrate_written_assignUpdate)
    have a: "assignUpdate ss ?new = ?new"
      by (rule assignUpdate_written)
    have "handleSubscriptionUpdate t2 ss ?s' = Inr ?s'"
      using True i by (simp add: handleSubscriptionUpdate_Some [OF f] n h a)
    then show ?thesis
      using True by (simp add: handleSubscriptionUpdate_Some [OF Some])
  qed
qed

lemma handleSubscriptionUpdate_overwrites:
  assumes f: "findOne (\<lambda>d. stripeSubscriptionId d = Some (ss_id e)) (subscriptions s) = Some i"
      and v: "validate (subscriptions s ! i)"
      and e: "ss_status e \<in> set status_enum"
  shows "\<exists>s'. handleSubscriptionUpdate now e s = Inr s' \<and>
           currentPeriodEnd (subscriptions s' ! i) = current_period_end e * 1000 \<and>
           findOne (\<lambda>d. stripeSubscriptionId d = Some (ss_id e)) (subscriptions s') = Some i \<and>
           validate (subscriptions s' ! i)"
proof -
  let ?old = "hydrate (subscriptions s ! i)"
  let ?new = "written now ?old (assignUpdate e ?old)"
  have i: "i < length (subscriptions s)" and P: "stripeSubscriptionId ?old = Some (ss_id e)"
    using f by (simp_all add: findOne_Some_iff)
  have "validate ?old"
    using v by simp
  then have va: "validate (assignUpdate e ?old)"
    using e unfolding validate_assignUpdate by (simp add: validate_def)
  have "handleSubscriptionUpdate now e s = Inr (s\<lparr>subscriptions := (subscriptions s)[i := ?new]\<rparr>)"
    using va by (simp add: handleSubscriptionUpdate_Some [OF f])
  moreover have "findOne (\<lambda>d. stripeSubscriptionId d = Some (ss_id e)) ((subscriptions s)[i := ?new]) = Some i"
    using f P by (simp add: findOne_list_update_same)
  ultimately show ?thesis
    using i va by simp
qed

section \<open>Facts about what the handlers keep\<close>

lemma kept_refl: "kept u docs docs"
  by (simp add: kept_def)

lemma kept_trans:
  assumes "kept u a b" and "kept u b c"
  shows "kept u a c"
proof -
  have "userId (c ! j) = userId (a ! j) \<and>
        (userId (a ! j) = u \<longrightarrow>
           features (c ! j) = features (a ! j) \<or>
           features (c ! j) = features_defaults (features (a ! j)))"
    if j: "j < length a" for j
  proof -
    have ab: "userId (b ! j) = userId (a ! j)"
      "userId (a ! j) = u \<longrightarrow> features (b ! j) = features (a ! j) \<or>
           features (b ! j) = features_defaults (features (a ! j))"
      and jb: "j < length b"
      using assms(1) j by (simp_all add: kept_def)
    have bc: "userId (c ! j) = userId (b ! j)"
      "userId (b ! j) = u \<longrightarrow> features (c ! j) = features (b ! j) \<or>
           features (c ! j) = features_defaults (features (b ! j))"
      using assms(2) jb by (simp_all add: kept_def)
    show ?thesis
    proof (cases "userId (a ! j) = u")
      case False
      with ab bc show ?thesis by simp
    next
      case True
      with ab bc have
        "features (b ! j) = features (a ! j) \<or> features (b ! j) = features_defaults (features (a ! j))"
        "features (c ! j) = features (b ! j) \<or> features (c ! j) = features_defaults (features (b ! j))"
        by simp_all
      then have "features (c ! j) = features (a ! j) \<or>
                 features (c ! j) = features_defaults (features (a ! j))"
        by (metis features_defaults_idem)
      with ab bc show ?thesis by simp
    qed
  qed
  moreover have "length a \<le> length c"
    using assms by (simp add: kept_def)
  ultimately show ?thesis
    by (simp add: kept_def)
qed

lemma kept_append: "kept u docs (docs @ [x])"
  by (simp add: kept_def nth_append)

lemma kept_list_update:
  assumes "userId d = userId (docs ! i)"
      and "userId (docs ! i) = u \<longrightarrow>
             features d = features (docs ! i) \<or> features d = features_defaults (features (docs ! i))"
  shows "kept u docs (docs[i := d])"
proof -
  have "userId (docs[i := d] ! j) = userId (docs ! j) \<and>
        (userId (docs ! j) = u \<longrightarrow>
           features (docs[i := d] ! j) = features (docs ! j) \<or>
           features (docs[i := d] ! j) = features_defaults (features (docs ! j)))"
    if "j < length docs" for j
    using that assms by (cases "j = i") simp_all
  then show ?thesis
    by (simp add: kept_def)
qed

lemma kept_save:
  assumes "save now docs i d = Inr docs'"
      and "userId d = userId (docs ! i)"
      and "features d = features_defaults (features (docs ! i))"
  shows "kept u docs docs'"
proof -
  have "docs' = docs[i := written now (hydrate (docs ! i)) d]"
    using assms(1) by (simp add: save_def split: if_splits)
  then show ?thesis
    using assms(2,3) by (simp add: kept_list_update)
qed

lemma kept_upsert:
  assumes "\<And>d. userId (upd d) = userId d" and "u' \<noteq> u"
  shows "kept u docs (findOneAndUpdate_upsert (\<lambda>d. userId d = u') upd fresh docs)"
proof (cases "findOne (\<lambda>d. userId d = u') docs")
  case None
  then show ?thesis
    by (simp add: findOneAndUpdate_upsert_def kept_append)
next
  case (Some i)
  then have "userId (docs ! i) = u'"
    by (simp add: findOne_Some_iff)
  with Some assms show ?thesis
    by (simp add: findOneAndUpdate_upsert_def kept_list_update)
qed

lemma checkoutUpdate_fields [simp]:
  "userId (checkoutUpdate p amount' now ss session d) = userId d"
  "features (checkoutUpdate p amount' now ss session d) = plan_features p"
  by (simp_all add: checkoutUpdate_def Let_def)

lemma kept_handleSubscriptionUpdate:
  "handleSubscriptionUpdate now ss s = Inr s' \<Longrightarrow> kept u (subscriptions s) (subscriptions s')"
  by (auto simp: handleSubscriptionUpdate_def kept_refl split: option.splits sum.splits
      elim!: kept_save)

lemma kept_handleSubscriptionDeleted:
  "handleSubscriptionDeleted now ss s = Inr s' \<Longrightarrow> kept u (subscriptions s) (subscriptions s')"
  by (auto simp: handleSubscriptionDeleted_def Let_def kept_refl split: option.splits sum.splits
      elim!: kept_save)

lemma kept_handlePaymentFailed:
  "handlePaymentFailed now invc s = Inr s' \<Longrightarrow> kept u (subscriptions s) (subscriptions s')"
  by (auto simp: handlePaymentFailed_def Let_def kept_refl split: option.splits sum.splits
      elim!: kept_save)

lemma kept_handleCheckoutComplete:
  assumes "handleCheckoutComplete plans now ss session s = Inr s'"
      and "metadata_userId session \<noteq> u"
  shows "kept u (subscriptions s) (subscriptions s')"
  using assms
  by (auto simp: handleCheckoutComplete_def checkoutWrites_def kept_upsert
      split: option.splits js_price.splits)

lemma kept_deliver:
  assumes "checkout_user ev \<noteq> Some u"
  shows "kept u (subscriptions s) (subscriptions (deliver plans now ev s))"
proof (cases "webhook plans now ev s")
  case (Inl e)
  then show ?thesis by (simp add: deliver_def kept_refl)
next
  case (Inr s')
  then have "kept u (subscriptions s) (subscriptions s')"
    using assms
    by (cases ev)
       (auto simp: handleInvoicePaid_def kept_refl
          dest: kept_handleSubscriptionUpdate kept_handleSubscriptionDeleted
                kept_handlePaymentFailed kept_handleCheckoutComplete)
  with Inr show ?thesis by (simp add: deliver_def)
qed

lemma kept_deliver_all:
  assumes "\<forall>(c, t, ev) \<in> set evs. checkout_user ev \<noteq> Some u"
  shows "kept u (subscriptions s) (subscriptions (deliver_all s evs))"
  using assms
proof (induction evs arbitrary: s)
  case Nil
  then show ?case by (simp add: kept_refl)
next
  case (Cons x evs)
  obtain c t ev where x: "x = (c, t, ev)" by (cases x)
  with Cons.prems have "checkout_user ev \<noteq> Some u" by simp
  then have "kept u (subscriptions s) (subscriptions (deliver c t ev s))"
    by (rule kept_deliver)
  moreover have "kept u (subscriptions (deliver c t ev s)) (subscriptions (deliver_all (deliver c t ev s) evs))"
    using Cons.prems by (intro Cons.IH) simp
  ultimately show ?case
    using x by (auto intro: kept_trans)
qed

lemma kept_findOne:
  assumes "kept u docs docs'" and "findOne (\<lambda>d. userId d = u) docs = Some i"
  shows "findOne (\<lambda>d. userId d = u) docs' = Some i \<and>
         (features (docs' ! i) = features (docs ! i) \<or>
          features (docs' ! i) = features_defaults (features (docs ! i)))"
proof -
  have i: "i < length docs" "userId (docs ! i) = u" "\<forall>j < i. userId (docs ! j) \<noteq> u"
    using assms(2) by (simp_all add: findOne_Some_iff)
  have "\<forall>j < i. userId (docs' ! j) \<noteq> u"
    using assms(1) i by (simp add: kept_def)
  moreover have "i < length docs'" "userId (docs' ! i) = u"
    using assms(1) i by (simp_all add: kept_def)
  ultimately have "findOne (\<lambda>d. userId d = u) docs' = Some i"
    by (simp add: findOne_Some_iff)
  moreover have "features (docs' ! i) = features (docs ! i) \<or>
          features (docs' ! i) = features_defaults (features (docs ! i))"
    using assms(1) i by (simp add: kept_def)
  ultimately show ?thesis by simp
qed

lemma checkoutWrites_snapshot:
  "findOne (\<lambda>d. userId d = metadata_userId session)
     (subscriptions (checkoutWrites p amount' now ss session s))
     = Some (case findOne (\<lambda>d. userId d = metadata_userId session) (subscriptions s) of
               None \<Rightarrow> length (subscriptions s) | Some i \<Rightarrow> i) \<and>
   features (subscriptions (checkoutWrites p amount' now ss session s) !
       (case findOne (\<lambda>d. userId d = metadata_userId session) (subscriptions s) of
               None \<Rightarrow> length (subscriptions s) | Some i \<Rightarrow> i)) = plan_features p"
proof -
  let ?P = "\<lambda>d. userId d = metadata_userId session"
  let ?upd = "checkoutUpdate p amount' now ss session"
  let ?fresh = "newSubscription (metadata_userId session) now"
  let ?docs = "findOneAndUpdate_upsert ?P ?upd ?fresh (subscriptions s)"
  let ?i = "case findOne ?P (subscriptions s) of None \<Rightarrow> length (subscriptions s) | Some i \<Rightarrow> i"
  have "findOne ?P ?docs = Some ?i"
    by (rule upsert_position) (simp_all add: newSubscription_def)
  moreover obtain d where "?docs ! ?i = ?upd d"
    using upsert_nth [of ?P ?upd ?fresh "subscriptions s"] by blast
  then have "features (?docs ! ?i) = plan_features p"
    by simp
  ultimately show ?thesis
    by (simp add: checkoutWrites_def)
qed

lemma handleCheckoutComplete_snapshot:
  assumes c: "handleCheckoutComplete plans now ss session s = Inr s1"
      and p: "plans (metadata_plan session) = Some p"
  shows "findOne (\<lambda>d. userId d = metadata_userId session) (subscriptions s1)
           = Some (case findOne (\<lambda>d. userId d = metadata_userId session) (subscriptions s) of
                     None \<Rightarrow> length (subscriptions s) | Some i \<Rightarrow> i) \<and>
         features (subscriptions s1 !
             (case findOne (\<lambda>d. userId d = metadata_userId session) (subscriptions s) of
                     None \<Rightarrow> length (subscriptions s) | Some i \<Rightarrow> i)) = plan_features p"
proof -
  obtain amount' where "s1 = checkoutWrites p amount' now ss session s"
    using c p by (auto simp: handleCheckoutComplete_def split: js_price.splits)
  then show ?thesis
    by (simp only: checkoutWrites_snapshot)
qed

lemma deliver_catalog_unread:
  "checkout_user ev = None \<Longrightarrow> deliver c1 now ev s = deliver c2 now ev s"
  by (cases ev) (simp_all add: deliver_def)

section \<open>The reconciliation engine\<close>

text \<open>
  C1 as the spec states it, refuted: a stale event is not discarded. The example
  document has \<open>currentPeriodEnd\<close> 2000000; the event's period end is second 1000, that
  is 1000000, which is older; applying it overwrites the stored period.
\<close>

theorem handleSubscriptionUpdate_stale_counterexample:
  "handleSubscriptionUpdate 5000000 example_update example_db
     = Inr (example_db\<lparr>subscriptions :=
              [example_subscription\<lparr>currentPeriodStart := 0, currentPeriodEnd := 1000000,
                                    updatedAt := 5000000\<rparr>]\<rparr>)"
  by (simp add: handleSubscriptionUpdate_def save_def written_def assignUpdate_def validate_def
      hydrate_def features_defaults_def enum_defs example_db_def example_update_def
      example_subscription_def)

text \<open>
  C1, amended. For a stored document that passes the schema's validators and is the one
  found for the processor subscription id, every SubscriptionUpdated event with a status
  of the enumeration overwrites \<open>currentPeriodEnd\<close> with its own period end, older or
  newer. For two such events for the same id, the stored \<open>currentPeriodEnd\<close> after both
  is the period end of the event applied last, in either order (the last arrival wins).
\<close>

theorem handleSubscriptionUpdate_last_applied_wins:
  assumes f: "findOne (\<lambda>d. stripeSubscriptionId d = Some (ss_id e1)) (subscriptions s) = Some i"
      and v: "validate (subscriptions s ! i)"
      and same: "ss_id e2 = ss_id e1"
      and e1: "ss_status e1 \<in> set status_enum" and e2: "ss_status e2 \<in> set status_enum"
  shows "(case handleSubscriptionUpdate t1 e1 s of
            Inl err \<Rightarrow> False
          | Inr s1 \<Rightarrow>
              currentPeriodEnd (subscriptions s1 ! i) = current_period_end e1 * 1000 \<and>
              (case handleSubscriptionUpdate t2 e2 s1 of
                 Inl err \<Rightarrow> False
               | Inr s2 \<Rightarrow> currentPeriodEnd (subscriptions s2 ! i) = current_period_end e2 * 1000)) \<and>
         (case handleSubscriptionUpdate t1 e2 s of
            Inl err \<Rightarrow> False
          | Inr s1 \<Rightarrow>
              currentPeriodEnd (subscriptions s1 ! i) = current_period_end e2 * 1000 \<and>
              (case handleSubscriptionUpdate t2 e1 s1 of
                 Inl err \<Rightarrow> False
               | Inr s2 \<Rightarrow> currentPeriodEnd (subscriptions s2 ! i) = current_period_end e1 * 1000))"
proof -
  have two: "case handleSubscriptionUpdate t1 a s of
            Inl err \<Rightarrow> False
          | Inr s1 \<Rightarrow>
              currentPeriodEnd (subscriptions s1 ! i) = current_period_end a * 1000 \<and>
              (case handleSubscriptionUpdate t2 b s1 of
                 Inl err \<Rightarrow> False
               | Inr s2 \<Rightarrow> currentPeriodEnd (subscriptions s2 ! i) = current_period_end b * 1000)"
    if a: "ss_id a = ss_id e1" "ss_status a \<in> set status_enum"
      and b: "ss_id b = ss_id e1" "ss_status b \<in> set status_enum" for a b
  proof -
    from handleSubscriptionUpdate_overwrites [of a s i t1] f v a
    obtain s1 where s1: "handleSubscriptionUpdate t1 a s = Inr s1"
      "currentPeriodEnd (subscriptions s1 ! i) = current_period_end a * 1000"
      "findOne (\<lambda>d. stripeSubscriptionId d = Some (ss_id e1)) (subscriptions s1) = Some i"
      "validate (subscriptions s1 ! i)"
      by auto
    from handleSubscriptionUpdate_overwrites [of b s1 i t2] s1 b
    obtain s2 where "handleSubscriptionUpdate t2 b s1 = Inr s2"
      "currentPeriodEnd (subscriptions s2 ! i) = current_period_end b * 1000"
      by auto
    with s1 show ?thesis by simp
  qed
  show ?thesis
    using two [of e1 e2] two [of e2 e1] same e1 e2 by simp
qed

theorem handleSubscriptionUpdate_last_applied_wins_witness:
  "(case handleSubscriptionUpdate 5000000 (example_update\<lparr>current_period_end := 3000\<rparr>) example_db of
      Inl err \<Rightarrow> False
    | Inr s1 \<Rightarrow>
        currentPeriodEnd (subscriptions s1 ! 0) = 3000000 \<and>
        (case handleSubscriptionUpdate 6000000 example_update s1 of
           Inl err \<Rightarrow> False
         | Inr s2 \<Rightarrow> currentPeriodEnd (subscriptions s2 ! 0) = 1000000)) \<and>
   (case handleSubscriptionUpdate 5000000 example_update example_db of
      Inl err \<Rightarrow> False
    | Inr s1 \<Rightarrow>
        currentPeriodEnd (subscriptions s1 ! 0) = 1000000 \<and>
        (case handleSubscriptionUpdate 6000000 (example_update\<lparr>current_period_end := 3000\<rparr>) s1 of
           Inl err \<Rightarrow> False
         | Inr s2 \<Rightarrow> currentPeriodEnd (subscriptions s2 ! 0) = 3000000))"
proof -
  let ?e1 = "example_update\<lparr>current_period_end := 3000\<rparr>"
  have f: "findOne (\<lambda>d. stripeSubscriptionId d = Some (ss_id ?e1)) (subscriptions example_db) = Some 0"
    by (simp add: example_db_def example_update_def example_subscription_def)
  have v: "validate (subscriptions example_db ! 0)"
    by (simp add: example_db_def validate_example)
  have same: "ss_id example_update = ss_id ?e1"
    by simp
  have st: "ss_status ?e1 \<in> set status_enum" "ss_status example_update \<in> set status_enum"
    by (simp_all add: example_update_def status_enum_def)
  have pe: "current_period_end ?e1 * 1000 = 3000000" "current_period_end example_update * 1000 = 1000000"
    by (simp_all add: example_update_def)
  show ?thesis
    using handleSubscriptionUpdate_last_applied_wins [OF f v same st, where ?t1.0 = 5000000 and ?t2.0 = 6000000]
    unfolding pe .
qed

text \<open>
  C2 as the spec states it, refuted in its second half: the second application can
  error. An event whose status is \<open>unpaid\<close> is rejected by the schema's validation
  when it is first delivered, and again, with the same ValidationError, when it is
  replayed.
\<close>

theorem handleSubscriptionUpdate_replay_counterexample:
  "handleSubscriptionUpdate 6000000 (example_update\<lparr>ss_status := ''unpaid''\<rparr>)
      (deliver PLANS 5000000 (CustomerSubscriptionUpdated (example_update\<lparr>ss_status := ''unpaid''\<rparr>)) example_db)
     = Inl ValidationError"
  by (simp add: deliver_def handleSubscriptionUpdate_def save_def written_def assignUpdate_def validate_def
      hydrate_def features_defaults_def enum_defs example_db_def example_update_def
      example_subscription_def)

text \<open>
  C2, amended. For every store and every SubscriptionUpdated event, delivering the
  event a second time (at any later clock reading) leaves the store exactly as the
  first delivery left it, \<open>updatedAt\<close> included. The second application does not error
  when the first did not; an event that the schema's validation rejects is rejected
  again on replay with the same error, the store untouched both times.
\<close>

theorem handleSubscriptionUpdate_idempotent:
  "deliver plans t2 (CustomerSubscriptionUpdated ss) (deliver plans t1 (CustomerSubscriptionUpdated ss) s)
     = deliver plans t1 (CustomerSubscriptionUpdated ss) s \<and>
   (case handleSubscriptionUpdate t1 ss s of
      Inl e \<Rightarrow> handleSubscriptionUpdate t2 ss s = Inl e
    | Inr s' \<Rightarrow> handleSubscriptionUpdate t2 ss s' = Inr s')"
  using handleSubscriptionUpdate_replay [where ?t1.0 = t1 and ss = ss and s = s and ?t2.0 = t2]
  by (auto simp: deliver_def split: sum.splits)

theorem handleSubscriptionUpdate_idempotent_witness:
  "deliver PLANS 6000000 (CustomerSubscriptionUpdated (example_update\<lparr>current_period_end := 3000\<rparr>))
      (deliver PLANS 5000000 (CustomerSubscriptionUpdated (example_update\<lparr>current_period_end := 3000\<rparr>)) example_db)
     = deliver PLANS 5000000 (CustomerSubscriptionUpdated (example_update\<lparr>current_period_end := 3000\<rparr>)) example_db \<and>
   subscriptions (deliver PLANS 5000000 (CustomerSubscriptionUpdated (example_update\<lparr>current_period_end := 3000\<rparr>)) example_db)
     = [example_subscription\<lparr>currentPeriodStart := 0, currentPeriodEnd := 3000000,
                                    updatedAt := 5000000\<rparr>]"
proof -
  have "subscriptions (deliver PLANS 5000000 (CustomerSubscriptionUpdated (example_update\<lparr>current_period_end := 3000\<rparr>)) example_db)
     = [example_subscription\<lparr>currentPeriodStart := 0, currentPeriodEnd := 3000000,
                                    updatedAt := 5000000\<rparr>]"
    by (simp add: deliver_def handleSubscriptionUpdate_def save_def written_def assignUpdate_def
        validate_def hydrate_def features_defaults_def enum_defs example_db_def
        example_update_def example_subscription_def)
  then show ?thesis
    using handleSubscriptionUpdate_idempotent [where plans = PLANS and ?t2.0 = 6000000
        and ss = "example_update\<lparr>current_period_end := 3000\<rparr>" and ?t1.0 = 5000000 and s = example_db]
    by simp
qed

text \<open>
  C3 as the spec states it, refuted: an unknown status is not stored as \<open>past_due\<close>.
  For the status \<open>unpaid\<close> the handler throws a ValidationError, and the stored status
  stays \<open>active\<close>.
\<close>

theorem handleSubscriptionUpdate_unknown_status_counterexample:
  "handleSubscriptionUpdate 5000000 (example_update\<lparr>ss_status := ''unpaid''\<rparr>) example_db
     = Inl ValidationError \<and>
   map status (subscriptions (deliver PLANS 5000000
       (CustomerSubscriptionUpdated (example_update\<lparr>ss_status := ''unpaid''\<rparr>)) example_db))
     = [''active'']"
  by (simp add: deliver_def handleSubscriptionUpdate_def save_def written_def assignUpdate_def validate_def
      hydrate_def features_defaults_def enum_defs example_db_def example_update_def
      example_subscription_def)

text \<open>
  C3, amended. For every SubscriptionUpdated event whose reported status is outside the
  enumeration of the schema, applying the event to an existing matching record is
  rejected with a ValidationError and the store stays as it was: the stored status is
  kept, and no mapping to \<open>past_due\<close> takes place.
\<close>

theorem handleSubscriptionUpdate_unknown_status:
  assumes "ss_status e \<notin> set status_enum"
      and "findOne (\<lambda>d. stripeSubscriptionId d = Some (ss_id e)) (subscriptions s) = Some i"
  shows "handleSubscriptionUpdate now e s = Inl ValidationError \<and>
         deliver plans now (CustomerSubscriptionUpdated e) s = s"
  using assms
  by (simp add: handleSubscriptionUpdate_Some validate_assignUpdate deliver_def)

theorem handleSubscriptionUpdate_unknown_status_witness:
  "handleSubscriptionUpdate 5000000 (example_update\<lparr>ss_status := ''incomplete''\<rparr>) example_db
     = Inl ValidationError \<and>
   deliver PLANS 5000000 (CustomerSubscriptionUpdated (example_update\<lparr>ss_status := ''incomplete''\<rparr>)) example_db
     = example_db"
proof -
  have a: "ss_status (example_update\<lparr>ss_status := ''incomplete''\<rparr>) \<notin> set status_enum"
    by (simp add: status_enum_def)
  have f: "findOne (\<lambda>d. stripeSubscriptionId d = Some (ss_id (example_update\<lparr>ss_status := ''incomplete''\<rparr>)))
             (subscriptions example_db) = Some 0"
    by (simp add: example_db_def example_update_def example_subscription_def)
  show ?thesis
    using handleSubscriptionUpdate_unknown_status [OF a f] by simp
qed




text \<open>
  C5 as the spec states it, refuted. On the enterprise example, whose document was
  already canceled at 1500000, a SubscriptionDeleted event delivered at 5000000 replaces
  \<open>canceledAt\<close> by 5000000 although it was set; and the account's key list stays that
  of the enterprise bundle, which has a key the free bundle lacks.
\<close>

theorem handleSubscriptionDeleted_counterexample:
  "handleSubscriptionDeleted 5000000 example_update example_enterprise_db
     = Inr \<lparr>subscriptions = [example_subscription\<lparr>plan := ''enterprise'', status := ''canceled'',
          canceledAt := Some 5000000, features := plan_features PLANS_enterprise,
          updatedAt := 5000000\<rparr>],
      users = [''u1'' \<mapsto> \<lparr>subscription_plan = ''free'', subscription_startDate = Some 1000000,
                 subscription_endDate = Some 5000000,
                 subscription_features = Object_keys (plan_features PLANS_enterprise)\<rparr>]\<rparr> \<and>
   ''whiteLabeling'' \<in> set (Object_keys (plan_features PLANS_enterprise)) \<and>
   ''whiteLabeling'' \<notin> set (Object_keys (plan_features PLANS_free))"
  by (simp add: handleSubscriptionDeleted_def save_def written_def validate_def findByIdAndUpdate_def
      hydrate_def features_defaults_def enum_defs example_enterprise_db_def example_update_def
      example_subscription_def Object_keys_def PLANS_enterprise_def PLANS_free_def)

text \<open>
  C5, amended. For every SubscriptionDeleted event: if no record has the event's
  processor subscription id, the event changes nothing and does not error; if one has
  and passes the schema's validators, its status becomes \<open>canceled\<close>, its \<open>canceledAt\<close>
  becomes the current time whether or not it was set before, and the owning account's
  profile, when the account exists, gets the plan \<open>free\<close> and the current time as its
  end date.
\<close>

theorem handleSubscriptionDeleted_effect:
  "(findOne (\<lambda>d. stripeSubscriptionId d = Some (ss_id ss)) (subscriptions s) = None
      \<longrightarrow> handleSubscriptionDeleted now ss s = Inr s) \<and>
   (findOne (\<lambda>d. stripeSubscriptionId d = Some (ss_id ss)) (subscriptions s) = Some i \<and>
    validate (subscriptions s ! i)
      \<longrightarrow> (case handleSubscriptionDeleted now ss s of
             Inl e \<Rightarrow> False
           | Inr s' \<Rightarrow>
               status (subscriptions s' ! i) = ''canceled'' \<and>
               canceledAt (subscriptions s' ! i) = Some now \<and>
               map_option subscription_plan (users s' (userId (subscriptions s ! i)))
                 = map_option (\<lambda>u. ''free'') (users s (userId (subscriptions s ! i))) \<and>
               map_option subscription_endDate (users s' (userId (subscriptions s ! i)))
                 = map_option (\<lambda>u. Some now) (users s (userId (subscriptions s ! i)))))"
proof (intro conjI impI)
  assume "findOne (\<lambda>d. stripeSubscriptionId d = Some (ss_id ss)) (subscriptions s) = None"
  then show "handleSubscriptionDeleted now ss s = Inr s"
    by (simp add: handleSubscriptionDeleted_def)
next
  assume a: "findOne (\<lambda>d. stripeSubscriptionId d = Some (ss_id ss)) (subscriptions s) = Some i \<and>
    validate (subscriptions s ! i)"
  then have i: "i < length (subscriptions s)"
    by (simp add: findOne_Some_iff)
  have v: "validate ((hydrate (subscriptions s ! i))\<lparr>status := ''canceled'', canceledAt := Some now\<rparr>)"
    using a by (simp add: validate_status status_enum_def)
  show "case handleSubscriptionDeleted now ss s of
             Inl e \<Rightarrow> False
           | Inr s' \<Rightarrow>
               status (subscriptions s' ! i) = ''canceled'' \<and>
               canceledAt (subscriptions s' ! i) = Some now \<and>
               map_option subscription_plan (users s' (userId (subscriptions s ! i)))
                 = map_option (\<lambda>u. ''free'') (users s (userId (subscriptions s ! i))) \<and>
               map_option subscription_endDate (users s' (userId (subscriptions s ! i)))
                 = map_option (\<lambda>u. Some now) (users s (userId (subscriptions s ! i)))"
    using a v i
    by (simp add: handleSubscriptionDeleted_def save_def Let_def findByIdAndUpdate_def
        split: option.split)
qed

theorem handleSubscriptionDeleted_effect_witness:
  "handleSubscriptionDeleted 5000000 (example_update\<lparr>ss_id := ''sub_9''\<rparr>) example_db
     = Inr example_db \<and>
   (case handleSubscriptionDeleted 5000000 example_update example_db of
      Inl e \<Rightarrow> False
    | Inr s' \<Rightarrow> status (subscriptions s' ! 0) = ''canceled'' \<and>
        canceledAt (subscriptions s' ! 0) = Some 5000000 \<and>
        map_option subscription_plan (users s' ''u1'') = Some ''free'' \<and>
        map_option subscription_endDate (users s' ''u1'') = Some (Some 5000000))"
proof -
  have n: "findOne (\<lambda>d. stripeSubscriptionId d = Some (ss_id (example_update\<lparr>ss_id := ''sub_9''\<rparr>)))
             (subscriptions example_db) = None"
    by (simp add: example_db_def example_subscription_def)
  have f: "findOne (\<lambda>d. stripeSubscriptionId d = Some (ss_id example_update))
             (subscriptions example_db) = Some 0 \<and> validate (subscriptions example_db ! 0)"
    using validate_example
    by (simp add: example_db_def) (simp add: example_update_def example_subscription_def)
  have u: "userId (subscriptions example_db ! 0) = ''u1''" "users example_db ''u1'' \<noteq> None"
    by (simp_all add: example_db_def example_subscription_def)
  show ?thesis
    using handleSubscriptionDeleted_effect [THEN conjunct1, THEN mp, OF n, of 5000000]
          handleSubscriptionDeleted_effect [THEN conjunct2, THEN mp, OF f, of 5000000] u
    by (auto split: sum.splits)
qed

text \<open>
  C6 as the spec states it, refuted: a matching record that is neither active nor
  trialing is not left unchanged. A canceled document of the invoice's customer becomes
  \<open>past_due\<close>.
\<close>

theorem handlePaymentFailed_counterexample:
  "handlePaymentFailed 5000000 example_invoice
      (example_db\<lparr>subscriptions := [example_subscription\<lparr>status := ''canceled''\<rparr>]\<rparr>)
     = Inr (example_db\<lparr>subscriptions :=
              [example_subscription\<lparr>status := ''past_due'', updatedAt := 5000000\<rparr>]\<rparr>)"
  by (simp add: handlePaymentFailed_def save_def written_def validate_def hydrate_def
      features_defaults_def enum_defs example_db_def example_invoice_def example_subscription_def)

text \<open>
  C6, amended. For every PaymentFailed event: if no record has the event's processor
  customer id, the event changes nothing and does not error; if one has and passes the
  schema's validators, its status becomes \<open>past_due\<close> whatever it was before (canceled
  included), and no other document and no account profile changes.
\<close>

theorem handlePaymentFailed_any_status:
  "(findOne (\<lambda>d. stripeCustomerId d = Some (invoice_customer invc)) (subscriptions s) = None
      \<longrightarrow> handlePaymentFailed now invc s = Inr s) \<and>
   (findOne (\<lambda>d. stripeCustomerId d = Some (invoice_customer invc)) (subscriptions s) = Some i \<and>
    validate (subscriptions s ! i)
      \<longrightarrow> (case handlePaymentFailed now invc s of
             Inl e \<Rightarrow> False
           | Inr s' \<Rightarrow>
               status (subscriptions s' ! i) = ''past_due'' \<and>
               length (subscriptions s') = length (subscriptions s) \<and>
               (\<forall>j. j \<noteq> i \<longrightarrow> subscriptions s' ! j = subscriptions s ! j) \<and>
               users s' = users s))"
proof (intro conjI impI)
  assume "findOne (\<lambda>d. stripeCustomerId d = Some (invoice_customer invc)) (subscriptions s) = None"
  then show "handlePaymentFailed now invc s = Inr s"
    by (simp add: handlePaymentFailed_def)
next
  assume a: "findOne (\<lambda>d. stripeCustomerId d = Some (invoice_customer invc)) (subscriptions s) = Some i \<and>
    validate (subscriptions s ! i)"
  then have i: "i < length (subscriptions s)"
    by (simp add: findOne_Some_iff)
  have v: "validate ((hydrate (subscriptions s ! i))\<lparr>status := ''past_due''\<rparr>)"
    using a by (simp add: validate_status status_enum_def)
  show "case handlePaymentFailed now invc s of
             Inl e \<Rightarrow> False
           | Inr s' \<Rightarrow>
               status (subscriptions s' ! i) = ''past_due'' \<and>
               length (subscriptions s') = length (subscriptions s) \<and>
               (\<forall>j. j \<noteq> i \<longrightarrow> subscriptions s' ! j = subscriptions s ! j) \<and>
               users s' = users s"
    using a v i by (simp add: handlePaymentFailed_def save_def Let_def)
qed

theorem handlePaymentFailed_any_status_witness:
  "handlePaymentFailed 5000000 (example_invoice\<lparr>invoice_customer := ''cus_9''\<rparr>) example_db
     = Inr example_db \<and>
   (case handlePaymentFailed 5000000 example_invoice
           (example_db\<lparr>subscriptions := [example_subscription\<lparr>status := ''canceled''\<rparr>]\<rparr>) of
      Inl e \<Rightarrow> False
    | Inr s' \<Rightarrow> status (subscriptions s' ! 0) = ''past_due'' \<and> users s' = users example_db)"
proof -
  let ?s = "example_db\<lparr>subscriptions := [example_subscription\<lparr>status := ''canceled''\<rparr>]\<rparr>"
  have n: "findOne (\<lambda>d. stripeCustomerId d = Some (invoice_customer (example_invoice\<lparr>invoice_customer := ''cus_9''\<rparr>)))
             (subscriptions example_db) = None"
    by (simp add: example_db_def example_subscription_def)
  have f: "findOne (\<lambda>d. stripeCustomerId d = Some (invoice_customer example_invoice))
             (subscriptions ?s) = Some 0 \<and> validate (subscriptions ?s ! 0)"
    using validate_example
    by (simp add: validate_status status_enum_def) (simp add: example_invoice_def example_subscription_def)
  show ?thesis
    using handlePaymentFailed_any_status [THEN conjunct1, THEN mp, OF n, of 5000000]
          handlePaymentFailed_any_status [THEN conjunct2, THEN mp, OF f, of 5000000]
    by (auto split: sum.splits)
qed

section \<open>The usage gate\<close>

text \<open>
  C7. The gate compares a counter with its limit by strict inequality: each of the three
  counter-gated capabilities is permitted exactly when \<open>used < limit\<close>. For a document
  with a \<open>codeExecutions\<close> limit of 500 and 499 executions used, \<open>codeExecution\<close> is
  permitted; after one recorded use the counter is 500 and it is refused; a further
  increment gives 501 and it stays refused. An increment by a delta that is not negative
  never lowers the counter (it does not wrap and does not become negative).
\<close>

theorem canUseFeature_strict:
  "(canUseFeature this ''createProject'' \<longleftrightarrow> currentProjects (usage this) < maxProjects (features this)) \<and>
   (canUseFeature this ''aiTutor'' \<longleftrightarrow> aiTutorMinutesUsed (usage this) < aiTutorMinutes (features this)) \<and>
   (canUseFeature this ''codeExecution'' \<longleftrightarrow> codeExecutionsUsed (usage this) < codeExecutions (features this)) \<and>
   (codeExecutions (features this) = 500 \<and> codeExecutionsUsed (usage this) = 499 \<longrightarrow>
      canUseFeature this ''codeExecution'' \<and>
      codeExecutionsUsed (usage (recordUsage ''codeExecution'' 1 this)) = 500 \<and>
      \<not> canUseFeature (recordUsage ''codeExecution'' 1 this) ''codeExecution'' \<and>
      codeExecutionsUsed (usage (recordUsage ''codeExecution'' 1 (recordUsage ''codeExecution'' 1 this))) = 501 \<and>
      \<not> canUseFeature (recordUsage ''codeExecution'' 1 (recordUsage ''codeExecution'' 1 this)) ''codeExecution'') \<and>
   (0 \<le> delta \<and> 0 \<le> codeExecutionsUsed (usage this) \<longrightarrow>
      codeExecutionsUsed (usage this) \<le> codeExecutionsUsed (usage (recordUsage ''codeExecution'' delta this)) \<and>
      0 \<le> codeExecutionsUsed (usage (recordUsage ''codeExecution'' delta this)))"
  by (simp add: canUseFeature_def recordUsage_def)

theorem canUseFeature_strict_witness:
  "canUseFeature example_subscription ''codeExecution'' \<and>
   \<not> canUseFeature (recordUsage ''codeExecution'' 1 example_subscription) ''codeExecution'' \<and>
   codeExecutionsUsed (usage (recordUsage ''codeExecution'' 1 (recordUsage ''codeExecution'' 1 example_subscription))) = 501 \<and>
   499 \<le> codeExecutionsUsed (usage (recordUsage ''codeExecution'' 7 example_subscription))"
proof -
  have h: "codeExecutions (features example_subscription) = 500 \<and>
           codeExecutionsUsed (usage example_subscription) = 499"
    by (simp add: example_subscription_def PLANS_starter_def features_defaults_def)
  have d: "(0::int) \<le> 7 \<and> 0 \<le> codeExecutionsUsed (usage example_subscription)"
    by (simp add: example_subscription_def)
  show ?thesis
    using canUseFeature_strict [of example_subscription 7, THEN conjunct2, THEN conjunct2,
            THEN conjunct2, THEN conjunct1, THEN mp, OF h]
          canUseFeature_strict [of example_subscription 7, THEN conjunct2, THEN conjunct2,
            THEN conjunct2, THEN conjunct2, THEN mp, OF d] h
    by simp
qed

text \<open>
  C9 as the spec states it, refuted: \<open>resetUsage\<close> does not zero every counter. On the
  example document the projects counter stays 2 and the storage counter stays 4.
\<close>

theorem resetUsage_counterexample:
  "case resetUsage 5000000 0 [example_subscription] of
     Inl e \<Rightarrow> False
   | Inr docs' \<Rightarrow> currentProjects (usage (docs' ! 0)) = 2 \<and> storageUsedGB (usage (docs' ! 0)) = 4"
  by (simp add: resetUsage_def save_def written_def Let_def validate_def or0_def hydrate_def
      features_defaults_def example_subscription_def enum_defs)

text \<open>
  C9, amended. On a stored document that passes the schema's validators, \<open>resetUsage\<close>
  succeeds, sets the AI-tutor minutes and the code executions to zero, sets
  \<open>lastResetDate\<close> to the current time, and keeps the projects counter and the storage
  counter as they were; no other document changes.
\<close>

theorem resetUsage_keeps_gauges:
  assumes "i < length docs" and "validate (docs ! i)"
  shows "case resetUsage now i docs of
           Inl e \<Rightarrow> False
         | Inr docs' \<Rightarrow>
             length docs' = length docs \<and>
             (\<forall>j < length docs. j \<noteq> i \<longrightarrow> docs' ! j = docs ! j) \<and>
             aiTutorMinutesUsed (usage (docs' ! i)) = 0 \<and>
             codeExecutionsUsed (usage (docs' ! i)) = 0 \<and>
             lastResetDate (usage (docs' ! i)) = now \<and>
             currentProjects (usage (docs' ! i)) = currentProjects (usage (docs ! i)) \<and>
             storageUsedGB (usage (docs' ! i)) = storageUsedGB (usage (docs ! i))"
proof -
  define u where "u = \<lparr>currentProjects = or0 (currentProjects (usage (docs ! i))),
                     aiTutorMinutesUsed = 0, codeExecutionsUsed = 0,
                     storageUsedGB = or0 (storageUsedGB (usage (docs ! i))),
                     lastResetDate = now\<rparr>"
  define d where "d = (hydrate (docs ! i))\<lparr>usage := u\<rparr>"
  define d' where "d' = written now (hydrate (docs ! i)) d"
  have v: "validate d"
    using assms(2) by (simp add: d_def validate_def hydrate_def)
  have r: "resetUsage now i docs = Inr (docs[i := d'])"
    using v by (simp add: resetUsage_def save_def Let_def d_def u_def d'_def)
  have "\<And>c. usage (if c then d else d\<lparr>updatedAt := now\<rparr>) = usage d"
    by simp
  then have "usage d' = usage d"
    unfolding d'_def written_def .
  then have "usage d' = u"
    by (simp add: d_def)
  then have "aiTutorMinutesUsed (usage d') = 0" "codeExecutionsUsed (usage d') = 0"
    "lastResetDate (usage d') = now"
    "currentProjects (usage d') = currentProjects (usage (docs ! i))"
    "storageUsedGB (usage d') = storageUsedGB (usage (docs ! i))"
    by (simp_all add: u_def or0_def)
  then show ?thesis
    using assms(1) by (simp add: r)
qed

theorem resetUsage_keeps_gauges_witness:
  "case resetUsage 5000000 0 [example_subscription] of
     Inl e \<Rightarrow> False
   | Inr docs' \<Rightarrow>
     aiTutorMinutesUsed (usage (docs' ! 0)) = 0 \<and> codeExecutionsUsed (usage (docs' ! 0)) = 0 \<and>
     lastResetDate (usage (docs' ! 0)) = 5000000 \<and>
     currentProjects (usage (docs' ! 0)) = 2"
  using resetUsage_keeps_gauges [of 0 "[example_subscription]" 5000000] validate_example
  by (auto simp add: example_subscription_def split: sum.splits)

section \<open>The revenue aggregator\<close>

text \<open>
  C10. When no document has status \<open>active\<close> and a plan other than \<open>free\<close>, the
  aggregation yields no group, and \<open>getMRR\<close> returns the explicit zero record:
  \<open>totalMRR = 0\<close> and \<open>subscriberCount = 0\<close>.
\<close>

theorem getMRR_no_paying_subscriber:
  assumes "\<forall>d \<in> set docs. \<not> (status d = ''active'' \<and> plan d \<noteq> ''free'')"
  shows "aggregate_mrr docs = [] \<and> getMRR docs = \<lparr>totalMRR = 0, subscriberCount = 0\<rparr>"
proof -
  have "filter (\<lambda>d. status d = ''active'' \<and> plan d \<noteq> ''free'') docs = []"
    using assms by (simp add: filter_empty_conv)
  then show ?thesis by (simp add: aggregate_mrr_def getMRR_def)
qed

theorem getMRR_no_paying_subscriber_witness:
  "getMRR [example_subscription\<lparr>status := ''canceled''\<rparr>, example_subscription\<lparr>plan := ''free''\<rparr>]
     = \<lparr>totalMRR = 0, subscriberCount = 0\<rparr>"
  using getMRR_no_paying_subscriber
    [of "[example_subscription\<lparr>status := ''canceled''\<rparr>, example_subscription\<lparr>plan := ''free''\<rparr>]"]
  by (simp add: example_subscription_def)

text \<open>
  C8 as the spec states it, refuted: the rate is not bounded by 100. With one active
  document created before the window and two documents canceled inside it, the rate is
  200 (the clock reads 1700000000000, and three months earlier is 1692051200000).
\<close>

theorem getChurnRate_counterexample:
  "getChurnRate (\<lambda>now months. now - months * 2649600000) 1700000000000 3
     [example_subscription,
      example_subscription\<lparr>status := ''canceled'', canceledAt := Some 1699000000000\<rparr>,
      example_subscription\<lparr>status := ''canceled'', canceledAt := Some 1699000000000\<rparr>] = 200"
  by (simp add: getChurnRate_def countDocuments_def example_subscription_def)

text \<open>
  C8, amended. For every store and every window, \<open>getChurnRate\<close> is never negative and
  is exactly 0 when no active document was created before the start of the window (no
  division by zero); otherwise it is 100 times the number of documents canceled or
  expired inside the window divided by the number of active documents created before
  it, with no upper bound of 100.
\<close>

theorem getChurnRate_nonneg:
  "0 \<le> getChurnRate setMonth now months docs \<and>
   (countDocuments (\<lambda>d. createdAt d < setMonth now months \<and> status d = ''active'') docs = 0
      \<longrightarrow> getChurnRate setMonth now months docs = 0) \<and>
   (0 < countDocuments (\<lambda>d. createdAt d < setMonth now months \<and> status d = ''active'') docs
      \<longrightarrow> getChurnRate setMonth now months docs =
       of_nat (countDocuments
            (\<lambda>d. (case canceledAt d of None \<Rightarrow> False | Some c \<Rightarrow> setMonth now months \<le> c) \<and>
                  (status d = ''canceled'' \<or> status d = ''expired'')) docs) * 100 /
       of_nat (countDocuments (\<lambda>d. createdAt d < setMonth now months \<and> status d = ''active'') docs))"
  by (simp add: getChurnRate_def Let_def)

theorem getChurnRate_nonneg_witness:
  "getChurnRate (\<lambda>now months. now - months * 2649600000) 1700000000000 3
     [example_subscription\<lparr>status := ''canceled'', canceledAt := Some 1699000000000\<rparr>] = 0"
  using getChurnRate_nonneg [of "\<lambda>now months. now - months * 2649600000" 1700000000000 3
     "[example_subscription\<lparr>status := ''canceled'', canceledAt := Some 1699000000000\<rparr>]"]
  by (simp add: countDocuments_def example_subscription_def)

end
